theory Spec2Isabelle
  imports Complex_Main
begin

section \<open>Strings, floats and errors of the ETL script\<close>

text \<open>
  A Python \<^verbatim>\<open>str\<close> is a sequence of Unicode code points, so it is modelled as a list of
  code points (natural numbers), not as a list of bytes: the euro sign is the single
  code point 8364 and the non-breaking space is 160.
\<close>

type_synonym pystr = "nat list"

definition ascii :: "string \<Rightarrow> pystr" where
  "ascii s = map of_char s"

text \<open>
  The exceptions that reach the caller of the ETL functions. \<^verbatim>\<open>float()\<close> and
  \<^verbatim>\<open>pd.to_datetime\<close> raise \<^verbatim>\<open>ValueError\<close> on text they cannot read; the upload
  raises \<^verbatim>\<open>ValueError\<close> itself when its configuration is missing; reading a column
  that a frame does not have raises \<^verbatim>\<open>KeyError\<close>.
\<close>

datatype error = ValueError | KeyError

text \<open>
  A Python float. \<open>Float q\<close> stands for the binary64 value that correct rounding assigns
  to the rational \<open>q\<close>; this is the value both of \<^verbatim>\<open>float("1234.56")\<close> and of the
  literal \<^verbatim>\<open>1234.56\<close>, so equal model values denote equal floats. \<open>NaN\<close> is
  \<^verbatim>\<open>np.nan\<close>, the null of a float column.
\<close>

datatype pyfloat = Float rat | NaN | PosInf | NegInf

subsection \<open>\<^verbatim>\<open>str.replace\<close> and \<^verbatim>\<open>str.strip\<close>\<close>

text \<open>\<^verbatim>\<open>s.replace(old, new)\<close> for a one-character \<^verbatim>\<open>old\<close>: every occurrence is replaced.\<close>

definition replace :: "nat \<Rightarrow> pystr \<Rightarrow> pystr \<Rightarrow> pystr" where
  "replace old new s = concat (map (\<lambda>c. if c = old then new else [c]) s)"

text \<open>The characters \<^verbatim>\<open>str.strip()\<close> removes: those for which \<^verbatim>\<open>str.isspace\<close> holds.\<close>

definition isspace :: "nat \<Rightarrow> bool" where
  "isspace c \<longleftrightarrow>
     (9 \<le> c \<and> c \<le> 13) \<or> (28 \<le> c \<and> c \<le> 32) \<or> c = 133 \<or> c = 160 \<or> c = 5760 \<or>
     (8192 \<le> c \<and> c \<le> 8202) \<or> c = 8232 \<or> c = 8233 \<or> c = 8239 \<or> c = 8287 \<or> c = 12288"

definition strip :: "pystr \<Rightarrow> pystr" where
  "strip s = rev (dropWhile isspace (rev (dropWhile isspace s)))"

subsection \<open>The builtin \<^verbatim>\<open>float(str)\<close>\<close>

text \<open>
  \<^verbatim>\<open>float\<close> first maps every Unicode space to a blank and every Unicode decimal digit to
  its ASCII digit; any other code point from 127 on becomes a question mark and ends the
  text. Which code points beyond ASCII are decimal digits is a table of the interpreter;
  it is the parameter \<open>ud\<close> (the digit's value, or \<open>None\<close>).
\<close>

fun to_ascii :: "(nat \<Rightarrow> nat option) \<Rightarrow> pystr \<Rightarrow> pystr" where
  "to_ascii ud [] = []"
| "to_ascii ud (c # cs) =
     (if c < 127 then c # to_ascii ud cs
      else if isspace c then 32 # to_ascii ud cs
      else (case ud c of None \<Rightarrow> [63] | Some d \<Rightarrow> (48 + d) # to_ascii ud cs))"

definition ascii_space :: "nat \<Rightarrow> bool" where
  "ascii_space c \<longleftrightarrow> (9 \<le> c \<and> c \<le> 13) \<or> c = 32"

definition is_digit :: "nat \<Rightarrow> bool" where
  "is_digit c \<longleftrightarrow> 48 \<le> c \<and> c \<le> 57"

text \<open>
  \<^verbatim>\<open>digitpart ::= digit (["_"] digit)*\<close>: the longest such prefix, as the list of its digit
  values, and the rest of the text. The flag says whether the previous character was a
  digit: an underscore is read only between two digits.
\<close>

fun digitpart :: "bool \<Rightarrow> pystr \<Rightarrow> nat list \<times> pystr" where
  "digitpart prev [] = ([], [])"
| "digitpart prev (c # cs) =
     (if is_digit c then (case digitpart True cs of (ds, r) \<Rightarrow> ((c - 48) # ds, r))
      else if c = 95 \<and> prev \<and> (case cs of [] \<Rightarrow> False | d # _ \<Rightarrow> is_digit d)
      then digitpart False cs
      else ([], c # cs))"

definition digits_value :: "nat list \<Rightarrow> nat" where
  "digits_value ds = foldl (\<lambda>a d. 10 * a + d) 0 ds"

text \<open>\<^verbatim>\<open>exponent ::= ("e" | "E") [sign] digitpart\<close>, up to the end of the text, or nothing.\<close>

definition exponent :: "pystr \<Rightarrow> int option" where
  "exponent r =
     (case r of
        [] \<Rightarrow> Some 0
      | c # cs \<Rightarrow>
          if c = 101 \<or> c = 69 then
            (let neg = (case cs of [] \<Rightarrow> False | s # _ \<Rightarrow> s = 45);
                 signed = (case cs of [] \<Rightarrow> False | s # _ \<Rightarrow> s = 45 \<or> s = 43)
             in case digitpart False (if signed then tl cs else cs) of
                  (ds, rest) \<Rightarrow>
                    if ds = [] \<or> rest \<noteq> [] then None
                    else Some (if neg then - int (digits_value ds) else int (digits_value ds)))
          else None)"

definition scale10 :: "rat \<Rightarrow> int \<Rightarrow> rat" where
  "scale10 q e = (if 0 \<le> e then q * 10 ^ nat e else q / 10 ^ nat (- e))"

text \<open>
  \<^verbatim>\<open>number ::= [digitpart] "." digitpart | digitpart ["."]\<close> followed by an optional exponent:
  the decimal value it denotes, or \<open>None\<close> when the text is not of that form.
\<close>

definition floatnumber :: "pystr \<Rightarrow> rat option" where
  "floatnumber s =
     (case digitpart False s of
        (ip, r1) \<Rightarrow>
          (case (case r1 of [] \<Rightarrow> ([], []) | c # cs \<Rightarrow> if c = 46 then digitpart False cs else ([], r1)) of
             (fp, r2) \<Rightarrow>
               if ip = [] \<and> fp = [] then None
               else (case exponent r2 of
                       None \<Rightarrow> None
                     | Some e \<Rightarrow> Some (scale10 (of_nat (digits_value (ip @ fp))) (e - int (length fp))))))"

definition lower :: "pystr \<Rightarrow> pystr" where
  "lower s = map (\<lambda>c. if 65 \<le> c \<and> c \<le> 90 then c + 32 else c) s"

text \<open>
  The value \<^verbatim>\<open>float\<close> reads from a text, or \<open>None\<close> where it raises: blanks at both ends are
  dropped, then comes an optional sign and a number, an infinity or a NaN.
\<close>

definition float_value :: "(nat \<Rightarrow> nat option) \<Rightarrow> pystr \<Rightarrow> pyfloat option" where
  "float_value ud s =
     (let t = rev (dropWhile ascii_space (rev (dropWhile ascii_space (to_ascii ud s))));
          neg = (case t of [] \<Rightarrow> False | c # _ \<Rightarrow> c = 45);
          signed = (case t of [] \<Rightarrow> False | c # _ \<Rightarrow> c = 45 \<or> c = 43);
          body = (if signed then tl t else t)
      in if lower body = ascii ''inf'' \<or> lower body = ascii ''infinity''
         then Some (if neg then NegInf else PosInf)
         else if lower body = ascii ''nan'' then Some NaN
         else (case floatnumber body of
                 None \<Rightarrow> None
               | Some q \<Rightarrow> Some (Float (if neg then - q else q))))"

definition py_float :: "(nat \<Rightarrow> nat option) \<Rightarrow> pystr \<Rightarrow> error + pyfloat" where
  "py_float ud s = (case float_value ud s of None \<Rightarrow> Inl ValueError | Some v \<Rightarrow> Inr v)"

subsection \<open>\<^verbatim>\<open>parse_currency\<close>\<close>

text \<open>
  The argument is a cell of a currency column: a string, or a null (\<open>None\<close>), for which
  \<^verbatim>\<open>pd.isna\<close> holds. The replacements run in the order of the source: euro sign (8364),
  non-breaking space (160), full stop (46) removed, comma (44) turned into a full stop.
\<close>

definition parse_currency :: "(nat \<Rightarrow> nat option) \<Rightarrow> pystr option \<Rightarrow> error + pyfloat" where
  "parse_currency ud euro_str =
     (case euro_str of
        None \<Rightarrow> Inr NaN
      | Some s \<Rightarrow>
          py_float ud (strip (replace 44 [46] (replace 46 [] (replace 160 [] (replace 8364 [] s))))))"

section \<open>The frames of the pipeline\<close>

text \<open>
  A frame is the list of its rows, in index order; a row is a record with one field per
  column. A key cell and a raw text cell are strings or null (\<open>None\<close>). The three input
  frames have the columns the pipeline reads; columns of the joined frame that share a
  name with an input column are told apart by the record's name.
\<close>

type_synonym key = "pystr option"

record campaign =
  campaign_id :: key
  name :: "pystr option"

record inscription =
  lead_id :: key
  created_at :: "pystr option"
  amount :: "pystr option"

record lead =
  lead_id :: key
  input_channel :: key
  created_at :: "pystr option"
  cost :: "pystr option"

record leads_campaigns = lead +
  campaign_id :: key
  name :: "pystr option"

record merged = leads_campaigns +
  created_at_insc :: "pystr option"
  amount :: "pystr option"

text \<open>
  The columns \<^verbatim>\<open>prepare_dataset\<close> adds. A timestamp is a number of nanoseconds, \<open>None\<close>
  is \<^verbatim>\<open>NaT\<close>; \<^verbatim>\<open>conversion_time_days\<close> is a whole number or \<open>None\<close> for \<^verbatim>\<open>NaN\<close>.
\<close>

record enriched0 = merged +
  lead_created_at :: "int option"
  inscription_created_at :: "int option"
  cost_float :: pyfloat
  amount_float :: pyfloat
  conversion_time_days :: "int option"
  converted :: bool
  conversion_valid :: bool

datatype anomaly = MISSING_INSCRIPTION_DATE | NEGATIVE_CONVERSION_TIME | NO_ANOMALY

record enriched = enriched0 +
  conversion_anomaly_type :: anomaly

subsection \<open>\<^verbatim>\<open>DataFrame.merge(..., how="left")\<close>\<close>

text \<open>
  A left merge keeps the order of the left frame. A left row is paired with every right
  row that has its key, in the order of the right frame, and appears once with nulls in
  the right columns when no right row has its key. Null keys are equal to each other.
  No \<^verbatim>\<open>validate\<close> argument is given, so the keys are not checked for uniqueness.
\<close>

definition merge_left ::
    "('l \<Rightarrow> 'k) \<Rightarrow> ('r \<Rightarrow> 'k) \<Rightarrow> ('l \<Rightarrow> 'r option \<Rightarrow> 'o) \<Rightarrow> 'l list \<Rightarrow> 'r list \<Rightarrow> 'o list" where
  "merge_left left_on right_on join left right =
     concat (map (\<lambda>l. case filter (\<lambda>r. right_on r = left_on l) right of
                         [] \<Rightarrow> [join l None]
                       | m # ms \<Rightarrow> map (\<lambda>r. join l (Some r)) (m # ms)) left)"

definition join_campaign :: "lead \<Rightarrow> campaign option \<Rightarrow> leads_campaigns" where
  "join_campaign l c =
     (case c of
        None \<Rightarrow> lead.extend l (leads_campaigns.fields None None)
      | Some c \<Rightarrow> lead.extend l (leads_campaigns.fields (campaign.campaign_id c) (campaign.name c)))"

definition join_inscription :: "leads_campaigns \<Rightarrow> inscription option \<Rightarrow> merged" where
  "join_inscription lc i =
     (case i of
        None \<Rightarrow> leads_campaigns.extend lc (merged.fields None None)
      | Some i \<Rightarrow> leads_campaigns.extend lc
                    (merged.fields (inscription.created_at i) (inscription.amount i)))"

subsection \<open>Column operations\<close>

text \<open>\<^verbatim>\<open>Series.apply(f)\<close>: \<open>f\<close> on every cell in order; the first exception ends the call.\<close>

fun series_apply :: "('a \<Rightarrow> error + 'b) \<Rightarrow> 'a list \<Rightarrow> error + 'b list" where
  "series_apply f [] = Inr []"
| "series_apply f (x # xs) =
     (case f x of
        Inl e \<Rightarrow> Inl e
      | Inr y \<Rightarrow> (case series_apply f xs of Inl e \<Rightarrow> Inl e | Inr ys \<Rightarrow> Inr (y # ys)))"

text \<open>
  \<^verbatim>\<open>pd.to_datetime\<close> on a column. How pandas reads one date string is the parameter \<open>ts\<close>:
  an exception, \<^verbatim>\<open>NaT\<close> (for the texts pandas takes as null) or a timestamp. A null
  cell becomes \<^verbatim>\<open>NaT\<close>.
\<close>

definition to_datetime ::
    "(pystr \<Rightarrow> error + int option) \<Rightarrow> pystr option list \<Rightarrow> error + int option list" where
  "to_datetime ts col = series_apply (\<lambda>x. case x of None \<Rightarrow> Inr None | Some s \<Rightarrow> ts s) col"

text \<open>The difference of two timestamps, \<^verbatim>\<open>NaT\<close> when either is \<^verbatim>\<open>NaT\<close>.\<close>

definition sub_datetime :: "int option \<Rightarrow> int option \<Rightarrow> int option" where
  "sub_datetime a b =
     (case a of None \<Rightarrow> None | Some x \<Rightarrow> (case b of None \<Rightarrow> None | Some y \<Rightarrow> Some (x - y)))"

text \<open>
  \<^verbatim>\<open>.dt.days\<close>: the days component of a timedelta, which is the floor of the quotient by
  the nanoseconds of a day; \<^verbatim>\<open>NaN\<close> for \<^verbatim>\<open>NaT\<close>.
\<close>

definition dt_days :: "int option \<Rightarrow> int option" where
  "dt_days d = map_option (\<lambda>n. n div 86400000000000) d"

text \<open>\<^verbatim>\<open>column >= 0\<close>: a comparison with \<^verbatim>\<open>NaN\<close> is false.\<close>

definition ge_zero :: "int option \<Rightarrow> bool" where
  "ge_zero d = (case d of None \<Rightarrow> False | Some n \<Rightarrow> 0 \<le> n)"

subsection \<open>\<^verbatim>\<open>detect_anomaly\<close> and \<^verbatim>\<open>prepare_dataset\<close>\<close>

definition detect_anomaly :: "'a enriched0_scheme \<Rightarrow> anomaly" where
  "detect_anomaly row =
     (if converted row \<and> inscription_created_at row = None then MISSING_INSCRIPTION_DATE
      else if converted row \<and> (case conversion_time_days row of None \<Rightarrow> False | Some d \<Rightarrow> d < 0)
      then NEGATIVE_CONVERSION_TIME
      else NO_ANOMALY)"

text \<open>
  The statements of \<^verbatim>\<open>prepare_dataset\<close> in their order: the two merges, the two date
  columns, the two currency columns, the day difference, the two flags, and the anomaly
  of every row. Each new column is computed from columns of the frame; row \<open>i\<close> of the
  result holds cell \<open>i\<close> of every column.
\<close>

definition prepare_dataset ::
    "(pystr \<Rightarrow> error + int option) \<Rightarrow> (nat \<Rightarrow> nat option) \<Rightarrow>
     campaign list \<Rightarrow> lead list \<Rightarrow> inscription list \<Rightarrow> error + enriched list" where
  "prepare_dataset ts ud campaigns leads inscriptions =
     (let leads_campaigns = merge_left input_channel campaign.campaign_id join_campaign leads campaigns;
          df = merge_left lead_id inscription.lead_id join_inscription leads_campaigns inscriptions
      in case to_datetime ts (map created_at df) of Inl e \<Rightarrow> Inl e | Inr lead_created \<Rightarrow>
        (case to_datetime ts (map created_at_insc df) of Inl e \<Rightarrow> Inl e | Inr insc_created \<Rightarrow>
        (case series_apply (parse_currency ud) (map cost df) of Inl e \<Rightarrow> Inl e | Inr costs \<Rightarrow>
        (case series_apply (parse_currency ud) (map amount df) of Inl e \<Rightarrow> Inl e | Inr amounts \<Rightarrow>
          (let days = map dt_days (map2 sub_datetime insc_created lead_created);
               conv = map (\<lambda>t. t \<noteq> None) insc_created;
               valid = map ge_zero days;
               rows = map (\<lambda>i. merged.extend (df ! i)
                                   (enriched0.fields (lead_created ! i) (insc_created ! i)
                                      (costs ! i) (amounts ! i) (days ! i) (conv ! i) (valid ! i)))
                          [0..<length df]
           in Inr (map (\<lambda>row. enriched0.extend row (enriched.fields (detect_anomaly row))) rows))))))"

section \<open>\<^verbatim>\<open>sanitize_dataframe\<close>\<close>

text \<open>
  This function depends on the dtype of each column and changes a frame in place, so
  here a frame is the list of its labelled columns, each with its dtype, and frames live
  in a store. A cell of an object column is a Python object.
\<close>

datatype obj =
    PyNone
  | NaTObj
  | FloatObj pyfloat
  | IntObj int
  | BoolObj bool
  | StrObj pystr
  | TimestampObj "string option" int

datatype column =
    DatetimeCol "int option list"
  | DatetimeTZCol string "int option list"
  | FloatCol "pyfloat list"
  | IntCol "int list"
  | BoolCol "bool list"
  | ObjectCol "obj list"

type_synonym frame = "(string \<times> column) list"

text \<open>\<^verbatim>\<open>select_dtypes(include=["datetime64[ns]", "datetimetz"]).columns\<close>\<close>

fun is_datetime :: "column \<Rightarrow> bool" where
  "is_datetime (DatetimeCol xs) = True"
| "is_datetime (DatetimeTZCol tz xs) = True"
| "is_datetime c = False"

definition select_dtypes_datetime :: "frame \<Rightarrow> string list" where
  "select_dtypes_datetime f = map fst (filter (\<lambda>(n, c). is_datetime c) f)"

definition getitem :: "frame \<Rightarrow> string \<Rightarrow> error + column" where
  "getitem f col = (case map_of f col of None \<Rightarrow> Inl KeyError | Some c \<Rightarrow> Inr c)"

text \<open>\<^verbatim>\<open>f[col] = c\<close> replaces the column of that label, or adds it as the last column.\<close>

definition setitem :: "frame \<Rightarrow> string \<Rightarrow> column \<Rightarrow> frame" where
  "setitem f col c =
     (if col \<in> fst ` set f then map (\<lambda>(n, x). if n = col then (n, c) else (n, x)) f
      else f @ [(col, c)])"

definition isnull :: "obj \<Rightarrow> bool" where
  "isnull x \<longleftrightarrow> x = PyNone \<or> x = NaTObj \<or> x = FloatObj NaN"

fun notnull :: "column \<Rightarrow> bool list" where
  "notnull (DatetimeCol xs) = map (\<lambda>t. t \<noteq> None) xs"
| "notnull (DatetimeTZCol tz xs) = map (\<lambda>t. t \<noteq> None) xs"
| "notnull (FloatCol xs) = map (\<lambda>x. x \<noteq> NaN) xs"
| "notnull (IntCol xs) = map (\<lambda>_. True) xs"
| "notnull (BoolCol xs) = map (\<lambda>_. True) xs"
| "notnull (ObjectCol xs) = map (\<lambda>x. \<not> isnull x) xs"

fun astype_object :: "column \<Rightarrow> column" where
  "astype_object (DatetimeCol xs) =
     ObjectCol (map (\<lambda>t. case t of None \<Rightarrow> NaTObj | Some n \<Rightarrow> TimestampObj None n) xs)"
| "astype_object (DatetimeTZCol tz xs) =
     ObjectCol (map (\<lambda>t. case t of None \<Rightarrow> NaTObj | Some n \<Rightarrow> TimestampObj (Some tz) n) xs)"
| "astype_object (FloatCol xs) = ObjectCol (map FloatObj xs)"
| "astype_object (IntCol xs) = ObjectCol (map IntObj xs)"
| "astype_object (BoolCol xs) = ObjectCol (map BoolObj xs)"
| "astype_object (ObjectCol xs) = ObjectCol xs"

text \<open>
  \<^verbatim>\<open>c.where(mask, None)\<close>: the cells where the mask is false are replaced by \<^verbatim>\<open>None\<close>. An
  object column takes \<^verbatim>\<open>None\<close> as it is, and a datetime column stores it as \<^verbatim>\<open>NaT\<close>. A
  column where nothing is replaced is unchanged. What a numeric column does with
  \<^verbatim>\<open>None\<close> depends on the pandas release: with \<open>up\<close> the column becomes an object
  column that holds \<^verbatim>\<open>None\<close> (what the docstring of \<^verbatim>\<open>sanitize_dataframe\<close> describes),
  without it the cell is \<^verbatim>\<open>NaN\<close> in a float column.
\<close>

fun where_none :: "bool \<Rightarrow> column \<Rightarrow> bool list \<Rightarrow> column" where
  "where_none up (ObjectCol xs) keep = ObjectCol (map2 (\<lambda>x m. if m then x else PyNone) xs keep)"
| "where_none up (DatetimeCol xs) keep = DatetimeCol (map2 (\<lambda>x m. if m then x else None) xs keep)"
| "where_none up (DatetimeTZCol tz xs) keep =
     DatetimeTZCol tz (map2 (\<lambda>x m. if m then x else None) xs keep)"
| "where_none up (FloatCol xs) keep =
     (if list_all id keep then FloatCol xs
      else if up then ObjectCol (map2 (\<lambda>x m. if m then FloatObj x else PyNone) xs keep)
      else FloatCol (map2 (\<lambda>x m. if m then x else NaN) xs keep))"
| "where_none up (IntCol xs) keep =
     (if list_all id keep then IntCol xs
      else if up then ObjectCol (map2 (\<lambda>x m. if m then IntObj x else PyNone) xs keep)
      else FloatCol (map2 (\<lambda>x m. if m then Float (of_int x) else NaN) xs keep))"
| "where_none up (BoolCol xs) keep =
     (if list_all id keep then BoolCol xs
      else ObjectCol (map2 (\<lambda>x m. if m then BoolObj x else PyNone) xs keep))"

text \<open>\<^verbatim>\<open>f.where(pd.notnull(f), None)\<close> builds a new frame, column by column.\<close>

definition frame_where_notnull :: "bool \<Rightarrow> frame \<Rightarrow> frame" where
  "frame_where_notnull up f = map (\<lambda>(n, c). (n, where_none up c (notnull c))) f"

text \<open>
  The store is the list of the frames allocated so far; a reference to a frame is its
  position. \<^verbatim>\<open>copy\<close> and \<^verbatim>\<open>where\<close> allocate a new frame at the end, an assignment to a
  column overwrites the frame at its reference.

  The loop of \<^verbatim>\<open>sanitize_dataframe\<close> over the datetime columns of the copy \<open>s\<close>:
\<close>

fun sanitize_cols :: "bool \<Rightarrow> string list \<Rightarrow> frame list \<Rightarrow> nat \<Rightarrow> error + frame list" where
  "sanitize_cols up [] h s = Inr h"
| "sanitize_cols up (col # cols) h s =
     (case getitem (h ! s) col of
        Inl e \<Rightarrow> Inl e
      | Inr c \<Rightarrow>
          sanitize_cols up cols
            (h[s := setitem (h ! s) col (where_none up (astype_object c) (notnull c))]) s)"

text \<open>
  \<^verbatim>\<open>sanitize_dataframe(df)\<close> in the store \<open>h\<close>: the new store and the reference it returns.
\<close>

definition sanitize_dataframe :: "bool \<Rightarrow> frame list \<Rightarrow> nat \<Rightarrow> error + frame list \<times> nat" where
  "sanitize_dataframe up h df =
     (let h1 = h @ [h ! df];
          df_sanitized = length h;
          datetime_cols = select_dtypes_datetime (h1 ! df_sanitized)
      in case sanitize_cols up datetime_cols h1 df_sanitized of
           Inl e \<Rightarrow> Inl e
         | Inr h2 \<Rightarrow> Inr (h2 @ [frame_where_notnull up (h2 ! df_sanitized)], length h2))"

section \<open>\<^verbatim>\<open>upload_dataframe_to_mongo\<close>\<close>

text \<open>
  The environment after \<^verbatim>\<open>load_dotenv()\<close> is a map from variable names to values. The
  MongoDB server is a map from a database name and a collection name to the documents
  of that collection; the server is taken to be reachable. A frame is the list of its
  rows, and \<^verbatim>\<open>to_dict("records")\<close> gives one document per row; the identifier that
  \<^verbatim>\<open>insert_many\<close> adds to a document is left out. What the function prints is returned
  with the new state of the server.
\<close>

datatype message = Uploaded nat string string | No_records

definition falsy :: "string option \<Rightarrow> bool" where
  "falsy v \<longleftrightarrow> v = None \<or> v = Some []"

definition delete_many :: "(string \<times> string \<Rightarrow> 'd list) \<Rightarrow> string \<times> string \<Rightarrow> (string \<times> string \<Rightarrow> 'd list)" where
  "delete_many server coll = server(coll := [])"

definition insert_many ::
    "(string \<times> string \<Rightarrow> 'd list) \<Rightarrow> string \<times> string \<Rightarrow> 'd list \<Rightarrow> (string \<times> string \<Rightarrow> 'd list)" where
  "insert_many server coll records = server(coll := server coll @ records)"

definition upload_dataframe_to_mongo ::
    "(string \<Rightarrow> string option) \<Rightarrow> (string \<times> string \<Rightarrow> 'd list) \<Rightarrow> 'd list \<Rightarrow> bool \<Rightarrow>
     error + (string \<times> string \<Rightarrow> 'd list) \<times> message" where
  "upload_dataframe_to_mongo env server df drop_existing =
     (let mongo_uri = env ''MONGO_URI'';
          db_name = env ''MONGO_DB'';
          collection_name = env ''MONGO_COLLECTION''
      in if falsy mongo_uri \<or> falsy db_name \<or> falsy collection_name then Inl ValueError
         else (case (db_name, collection_name) of
                 (Some db, Some cn) \<Rightarrow>
                   (let server1 = (if drop_existing then delete_many server (db, cn) else server);
                        records = df
                    in if records \<noteq> []
                       then Inr (insert_many server1 (db, cn) records, Uploaded (length records) db cn)
                       else Inr (server1, No_records))
               | _ \<Rightarrow> Inl ValueError))"

section \<open>Example data\<close>

text \<open>
  A small run of the pipeline: one campaign and a second one with the same identifier,
  one lead, and three inscriptions of that lead: three days after the lead, one hour
  before it, and without a date. The example reader of dates knows three instants
  (nanoseconds since 1970) and rejects every other text; no code point beyond ASCII is a
  digit.
\<close>

definition example_ts :: "pystr \<Rightarrow> error + int option" where
  "example_ts s =
     (if s = ascii ''2024-03-01T10:00'' then Inr (Some 1709287200000000000)
      else if s = ascii ''2024-03-04T10:00'' then Inr (Some 1709546400000000000)
      else if s = ascii ''2024-03-01T09:00'' then Inr (Some 1709283600000000000)
      else Inl ValueError)"

definition example_ud :: "nat \<Rightarrow> nat option" where
  "example_ud c = None"

definition example_campaign :: campaign where
  "example_campaign =
     \<lparr>campaign.campaign_id = Some (ascii ''C1''), campaign.name = Some (ascii ''Search'')\<rparr>"

definition example_campaign_dup :: campaign where
  "example_campaign_dup =
     \<lparr>campaign.campaign_id = Some (ascii ''C1''), campaign.name = Some (ascii ''Social'')\<rparr>"

definition example_lead :: lead where
  "example_lead =
     \<lparr>lead.lead_id = Some (ascii ''L1''), input_channel = Some (ascii ''C1''),
      lead.created_at = Some (ascii ''2024-03-01T10:00''), cost = Some (8364 # ascii ''1.234,56'')\<rparr>"

definition example_inscription :: inscription where
  "example_inscription =
     \<lparr>inscription.lead_id = Some (ascii ''L1''),
      inscription.created_at = Some (ascii ''2024-03-04T10:00''),
      inscription.amount = Some (ascii ''0,00'')\<rparr>"

definition example_inscription_early :: inscription where
  "example_inscription_early =
     \<lparr>inscription.lead_id = Some (ascii ''L1''),
      inscription.created_at = Some (ascii ''2024-03-01T09:00''),
      inscription.amount = Some (ascii ''0,00'')\<rparr>"

definition example_inscription_undated :: inscription where
  "example_inscription_undated =
     \<lparr>inscription.lead_id = Some (ascii ''L1''),
      inscription.created_at = None,
      inscription.amount = Some (ascii ''0,00'')\<rparr>"

text \<open>The rows these runs return.\<close>

definition example_row :: enriched where
  "example_row =
     \<lparr>lead.lead_id = Some (ascii ''L1''), input_channel = Some (ascii ''C1''),
      lead.created_at = Some (ascii ''2024-03-01T10:00''), cost = Some (8364 # ascii ''1.234,56''),
      leads_campaigns.campaign_id = Some (ascii ''C1''), leads_campaigns.name = Some (ascii ''Search''),
      created_at_insc = Some (ascii ''2024-03-04T10:00''), merged.amount = Some (ascii ''0,00''),
      lead_created_at = Some 1709287200000000000, inscription_created_at = Some 1709546400000000000,
      cost_float = Float (123456 / 100), amount_float = Float 0,
      conversion_time_days = Some 3, converted = True, conversion_valid = True,
      conversion_anomaly_type = NO_ANOMALY\<rparr>"

definition example_row_early :: enriched where
  "example_row_early =
     example_row\<lparr>created_at_insc := Some (ascii ''2024-03-01T09:00''),
       inscription_created_at := Some 1709283600000000000,
       conversion_time_days := Some (- 1), conversion_valid := False,
       conversion_anomaly_type := NEGATIVE_CONVERSION_TIME\<rparr>"

definition example_row_undated :: enriched where
  "example_row_undated =
     example_row\<lparr>created_at_insc := None, inscription_created_at := None,
       conversion_time_days := None, converted := False, conversion_valid := False\<rparr>"

definition example_frame :: frame where
  "example_frame =
     [(''lead_id'', ObjectCol [StrObj (ascii ''L1''), StrObj (ascii ''L2'')]),
      (''lead_created_at'', DatetimeCol [Some 1709287200000000000, Some 1709287200000000000]),
      (''inscription_created_at'', DatetimeCol [Some 1709546400000000000, None]),
      (''amount_float'', FloatCol [Float 0, NaN]),
      (''conversion_time_days'', FloatCol [Float 3, NaN]),
      (''converted'', BoolCol [True, False])]"

definition example_frame_sanitized :: "bool \<Rightarrow> frame" where
  "example_frame_sanitized up =
     [(''lead_id'', ObjectCol [StrObj (ascii ''L1''), StrObj (ascii ''L2'')]),
      (''lead_created_at'',
         ObjectCol [TimestampObj None 1709287200000000000, TimestampObj None 1709287200000000000]),
      (''inscription_created_at'', ObjectCol [TimestampObj None 1709546400000000000, PyNone]),
      (''amount_float'',
         if up then ObjectCol [FloatObj (Float 0), PyNone] else FloatCol [Float 0, NaN]),
      (''conversion_time_days'',
         if up then ObjectCol [FloatObj (Float 3), PyNone] else FloatCol [Float 3, NaN]),
      (''converted'', BoolCol [True, False])]"

definition example_env :: "string \<Rightarrow> string option" where
  "example_env v =
     (if v = ''MONGO_URI'' then Some ''mongodb://localhost''
      else if v = ''MONGO_DB'' then Some ''marketing''
      else if v = ''MONGO_COLLECTION'' then Some ''leads''
      else None)"

definition example_server :: "string \<times> string \<Rightarrow> nat list" where
  "example_server coll = (if coll = (''marketing'', ''leads'') then [1, 2, 3] else [7])"

section \<open>Properties of the currency parser\<close>

lemmas float_defs = parse_currency_def py_float_def float_value_def floatnumber_def exponent_def
  scale10_def digits_value_def lower_def ascii_def strip_def replace_def isspace_def
  ascii_space_def is_digit_def




section \<open>Properties of the joins\<close>

lemma series_apply_length: "series_apply f xs = Inr ys \<Longrightarrow> length ys = length xs"
  by (induction xs arbitrary: ys) (auto split: sum.splits)

lemma series_apply_error:
  "x \<in> set xs \<Longrightarrow> f x = Inl e \<Longrightarrow> \<exists>e'. series_apply f xs = Inl e'"
  by (induction xs) (auto split: sum.splits)

lemma filter_key_count: "length (filter (\<lambda>r. f r = k) rs) = count_list (map f rs) k"
  by (induction rs) auto

text \<open>A left row gives one row for each right row with its key, and one row when there is none.\<close>

lemma length_merge_left:
  "length (merge_left left_on right_on join left right) =
     (\<Sum>l\<leftarrow>left. max 1 (count_list (map right_on right) (left_on l)))"
proof (induction left)
  case Nil
  show ?case by (simp add: merge_left_def)
next
  case (Cons l left)
  have "length (case filter (\<lambda>r. right_on r = left_on l) right of
                  [] \<Rightarrow> [join l None]
                | m # ms \<Rightarrow> map (\<lambda>r. join l (Some r)) (m # ms))
        = max 1 (length (filter (\<lambda>r. right_on r = left_on l) right))"
    by (cases "filter (\<lambda>r. right_on r = left_on l) right") simp_all
  with Cons show ?case
    by (simp add: merge_left_def filter_key_count)
qed

lemma merge_left_Cons:
  "merge_left lo ro j (l # ls) rs = merge_left lo ro j [l] rs @ merge_left lo ro j ls rs"
  by (simp add: merge_left_def)

lemma merge_left_append:
  "merge_left lo ro j (xs @ ys) rs = merge_left lo ro j xs rs @ merge_left lo ro j ys rs"
  by (simp add: merge_left_def)

lemma merge_left_covers:
  assumes "l \<in> set left"
  shows "\<exists>r. join l r \<in> set (merge_left lo ro join left right)"
proof (cases "filter (\<lambda>r. ro r = lo l) right")
  case Nil
  with assms have "join l None \<in> set (merge_left lo ro join left right)"
    by (force simp: merge_left_def)
  then show ?thesis ..
next
  case (Cons m ms)
  with assms have "join l (Some m) \<in> set (merge_left lo ro join left right)"
    by (force simp: merge_left_def)
  then show ?thesis ..
qed

lemma lead_id_join_campaign: "lead_id (join_campaign l c) = lead_id l"
  by (cases c) (simp_all add: join_campaign_def lead.defs leads_campaigns.defs)

lemma cost_join_campaign: "cost (join_campaign l c) = cost l"
  by (cases c) (simp_all add: join_campaign_def lead.defs leads_campaigns.defs)

lemma cost_join_inscription: "cost (join_inscription l i) = cost l"
  by (cases i) (simp_all add: join_inscription_def leads_campaigns.defs merged.defs)

lemma merge_campaign_lead_id:
  "x \<in> set (merge_left input_channel campaign.campaign_id join_campaign [l] cs) \<Longrightarrow>
   lead_id x = lead_id l"
  by (auto simp: merge_left_def lead_id_join_campaign split: list.splits)

lemma length_merge_const:
  assumes "\<And>x. x \<in> set xs \<Longrightarrow> lo x = k"
  shows "length (merge_left lo ro j xs rs) = length xs * max 1 (count_list (map ro rs) k)"
proof -
  have "(\<Sum>l\<leftarrow>xs. max 1 (count_list (map ro rs) (lo l))) =
        (\<Sum>l\<leftarrow>xs. max 1 (count_list (map ro rs) k))"
    using assms by (intro arg_cong[where f=sum_list] map_cong) auto
  then show ?thesis by (simp add: length_merge_left sum_list_triv)
qed

text \<open>The number of rows of the frame after both merges.\<close>

lemma length_joined:
  "length (merge_left lead_id inscription.lead_id join_inscription
            (merge_left input_channel campaign.campaign_id join_campaign leads campaigns)
            inscriptions) =
   (\<Sum>l\<leftarrow>leads. max 1 (count_list (map campaign.campaign_id campaigns) (input_channel l)) *
                max 1 (count_list (map inscription.lead_id inscriptions) (lead_id l)))"
proof (induction leads)
  case Nil
  show ?case by (simp add: merge_left_def)
next
  case (Cons l leads)
  have one: "length (merge_left lead_id inscription.lead_id join_inscription
                 (merge_left input_channel campaign.campaign_id join_campaign [l] campaigns)
                 inscriptions) =
             max 1 (count_list (map campaign.campaign_id campaigns) (input_channel l)) *
             max 1 (count_list (map inscription.lead_id inscriptions) (lead_id l))"
    using length_merge_const
      [of "merge_left input_channel campaign.campaign_id join_campaign [l] campaigns"
        lead_id "lead_id l" inscription.lead_id join_inscription inscriptions]
    by (simp add: merge_campaign_lead_id length_merge_left)
  show ?case
    using Cons one
    by (subst merge_left_Cons) (simp add: merge_left_append)
qed

section \<open>Properties of \<^verbatim>\<open>prepare_dataset\<close>\<close>

lemmas rec_defs = lead.defs leads_campaigns.defs merged.defs enriched0.defs enriched.defs
  campaign.defs inscription.defs

lemmas pipe_defs = prepare_dataset_def merge_left_def join_campaign_def join_inscription_def
  to_datetime_def sub_datetime_def dt_days_def ge_zero_def detect_anomaly_def

lemmas example_defs = example_ts_def example_ud_def example_campaign_def example_campaign_dup_def
  example_lead_def example_inscription_def example_inscription_early_def
  example_inscription_undated_def example_row_def example_row_early_def example_row_undated_def

text \<open>
  A run that returns has one row for each row of the merged frame, and in every row the
  derived columns are related as the statements of \<^verbatim>\<open>prepare_dataset\<close> compute them.
\<close>

lemma prepare_dataset_rows:
  assumes "prepare_dataset ts ud campaigns leads inscriptions = Inr out"
  shows "length out = length (merge_left lead_id inscription.lead_id join_inscription
            (merge_left input_channel campaign.campaign_id join_campaign leads campaigns)
            inscriptions)"
    and "r \<in> set out \<Longrightarrow>
           converted r = (inscription_created_at r \<noteq> None) \<and>
           conversion_time_days r =
             dt_days (sub_datetime (inscription_created_at r) (lead_created_at r)) \<and>
           conversion_valid r = ge_zero (conversion_time_days r) \<and>
           conversion_anomaly_type r = detect_anomaly r"
proof -
  define df where "df = merge_left lead_id inscription.lead_id join_inscription
            (merge_left input_channel campaign.campaign_id join_campaign leads campaigns)
            inscriptions"
  from assms obtain lc ic cs am where
    lc: "to_datetime ts (map created_at df) = Inr lc" and
    ic: "to_datetime ts (map created_at_insc df) = Inr ic" and
    out: "out = map (\<lambda>row. enriched0.extend row (enriched.fields (detect_anomaly row)))
            (map (\<lambda>i. merged.extend (df ! i)
                 (enriched0.fields (lc ! i) (ic ! i) (cs ! i) (am ! i)
                    (map dt_days (map2 sub_datetime ic lc) ! i)
                    (map (\<lambda>t. t \<noteq> None) ic ! i)
                    (map ge_zero (map dt_days (map2 sub_datetime ic lc)) ! i)))
              [0..<length df])"
    unfolding prepare_dataset_def df_def Let_def by (auto split: sum.splits)
  have llc: "length lc = length df" and lic: "length ic = length df"
    using lc ic by (auto simp: to_datetime_def dest: series_apply_length)
  show "length out = length (merge_left lead_id inscription.lead_id join_inscription
            (merge_left input_channel campaign.campaign_id join_campaign leads campaigns)
            inscriptions)"
    using out by (simp add: df_def)
  assume "r \<in> set out"
  then obtain i where i: "i < length df" and
    r: "r = enriched0.extend (merged.extend (df ! i)
                 (enriched0.fields (lc ! i) (ic ! i) (cs ! i) (am ! i)
                    (map dt_days (map2 sub_datetime ic lc) ! i)
                    (map (\<lambda>t. t \<noteq> None) ic ! i)
                    (map ge_zero (map dt_days (map2 sub_datetime ic lc)) ! i)))
              (enriched.fields (detect_anomaly (merged.extend (df ! i)
                 (enriched0.fields (lc ! i) (ic ! i) (cs ! i) (am ! i)
                    (map dt_days (map2 sub_datetime ic lc) ! i)
                    (map (\<lambda>t. t \<noteq> None) ic ! i)
                    (map ge_zero (map dt_days (map2 sub_datetime ic lc)) ! i)))))"
    unfolding out by auto
  show "converted r = (inscription_created_at r \<noteq> None) \<and>
           conversion_time_days r =
             dt_days (sub_datetime (inscription_created_at r) (lead_created_at r)) \<and>
           conversion_valid r = ge_zero (conversion_time_days r) \<and>
           conversion_anomaly_type r = detect_anomaly r"
    unfolding r using i llc lic
    by (simp add: merged.defs enriched0.defs enriched.defs detect_anomaly_def)
qed

text \<open>The runs of the example data.\<close>

lemma example_run:
  "prepare_dataset example_ts example_ud [example_campaign] [example_lead] [example_inscription] =
     Inr [example_row]"
  by (simp add: pipe_defs float_defs rec_defs example_defs)

lemma example_run_early:
  "prepare_dataset example_ts example_ud [example_campaign] [example_lead]
       [example_inscription_early] =
     Inr [example_row_early]"
  by (simp add: pipe_defs float_defs rec_defs example_defs)

lemma example_run_undated:
  "prepare_dataset example_ts example_ud [example_campaign] [example_lead]
       [example_inscription_undated] =
     Inr [example_row_undated]"
  by (simp add: pipe_defs float_defs rec_defs example_defs)

lemma example_run_dup:
  "prepare_dataset example_ts example_ud [example_campaign, example_campaign_dup] [example_lead]
       [example_inscription] =
     Inr [example_row, example_row\<lparr>leads_campaigns.name := Some (ascii ''Social'')\<rparr>]"
  by (simp add: pipe_defs float_defs rec_defs example_defs)

text \<open>
  A currency cell that \<^verbatim>\<open>parse_currency\<close> rejects ends the whole run: no frame is
  returned.
\<close>

lemma prepare_dataset_aborts_on_malformed_cost:
  assumes "l \<in> set leads" and "parse_currency ud (cost l) = Inl e"
  shows "\<exists>e'. prepare_dataset ts ud campaigns leads inscriptions = Inl e'"
proof -
  define df where "df = merge_left lead_id inscription.lead_id join_inscription
            (merge_left input_channel campaign.campaign_id join_campaign leads campaigns)
            inscriptions"
  from assms(1) obtain c where "join_campaign l c \<in>
      set (merge_left input_channel campaign.campaign_id join_campaign leads campaigns)"
    using merge_left_covers by fastforce
  then obtain i where "join_inscription (join_campaign l c) i \<in> set df"
    unfolding df_def using merge_left_covers by fastforce
  then have "cost l \<in> set (map cost df)"
    by (force simp: cost_join_campaign cost_join_inscription)
  then obtain e' where "series_apply (parse_currency ud) (map cost df) = Inl e'"
    using series_apply_error assms(2) by fastforce
  then show ?thesis
    unfolding prepare_dataset_def df_def [symmetric] Let_def by (simp split: sum.splits)
qed

text \<open>
  Claim C4. In every row that enrichment returns, \<^verbatim>\<open>conversion_valid\<close> implies
  \<^verbatim>\<open>converted\<close>, and a row whose \<^verbatim>\<open>conversion_time_days\<close> is null (as for a lead without
  inscription) has \<^verbatim>\<open>conversion_valid\<close> false.
\<close>

theorem conversion_valid_implies_converted:
  assumes "prepare_dataset ts ud campaigns leads inscriptions = Inr out" and "r \<in> set out"
  shows "(conversion_valid r \<longrightarrow> converted r) \<and>
         (conversion_time_days r = None \<longrightarrow> \<not> conversion_valid r)"
  using prepare_dataset_rows(2) [OF assms]
  by (auto simp: ge_zero_def dt_days_def sub_datetime_def split: option.splits)

text \<open>The lead that converts after three days: the row is valid and converted.\<close>

theorem conversion_valid_implies_converted_witness:
  "prepare_dataset example_ts example_ud [example_campaign] [example_lead] [example_inscription] =
     Inr [example_row] \<and>
   example_row \<in> set [example_row] \<and> conversion_valid example_row \<and> converted example_row"
  using conversion_valid_implies_converted [OF example_run, of example_row]
  by (simp add: example_run example_row_def)

text \<open>
  Claim C7. A row whose inscription is one hour (3600 * 10^9 nanoseconds) before its lead
  has \<^verbatim>\<open>conversion_time_days\<close> -1: the whole days are rounded towards minus infinity, not
  towards zero. The row is not valid and its anomaly is \<^verbatim>\<open>NEGATIVE_CONVERSION_TIME\<close>.
\<close>

theorem conversion_time_truncation:
  assumes "prepare_dataset ts ud campaigns leads inscriptions = Inr out" and "r \<in> set out"
    and "lead_created_at r = Some T" and "inscription_created_at r = Some (T - 3600000000000)"
  shows "conversion_time_days r = Some (- 1) \<and> \<not> conversion_valid r \<and>
         conversion_anomaly_type r = NEGATIVE_CONVERSION_TIME"
  using prepare_dataset_rows(2) [OF assms(1,2)] assms(3,4)
  by (simp add: ge_zero_def dt_days_def sub_datetime_def detect_anomaly_def)

text \<open>The lead of 10:00 with the inscription of 09:00 the same day.\<close>

theorem conversion_time_truncation_witness:
  "prepare_dataset example_ts example_ud [example_campaign] [example_lead]
       [example_inscription_early] =
     Inr [example_row_early] \<and>
   example_row_early \<in> set [example_row_early] \<and>
   lead_created_at example_row_early = Some 1709287200000000000 \<and>
   inscription_created_at example_row_early = Some (1709287200000000000 - 3600000000000) \<and>
   conversion_time_days example_row_early = Some (- 1) \<and> \<not> conversion_valid example_row_early \<and>
   conversion_anomaly_type example_row_early = NEGATIVE_CONVERSION_TIME"
  using conversion_time_truncation [OF example_run_early, of example_row_early 1709287200000000000]
  by (simp add: example_run_early example_row_early_def example_row_def)

text \<open>
  The first rule of \<^verbatim>\<open>detect_anomaly\<close> never applies to a row of \<^verbatim>\<open>prepare_dataset\<close>:
  \<^verbatim>\<open>converted\<close> is computed as "the inscription date is not null", so it is false
  whenever that date is null.
\<close>

lemma never_missing_inscription_date:
  assumes "prepare_dataset ts ud campaigns leads inscriptions = Inr out" and "r \<in> set out"
  shows "conversion_anomaly_type r \<noteq> MISSING_INSCRIPTION_DATE"
  using prepare_dataset_rows(2) [OF assms] by (auto simp: detect_anomaly_def)

text \<open>
  Claim C1 says that a lead with a matched inscription row whose date is absent gets the
  anomaly \<^verbatim>\<open>MISSING_INSCRIPTION_DATE\<close>. The code does not do this. For the example lead
  and its inscription without a date, the inscription row matches the lead, its date is
  null, and the row that enrichment returns is not converted and has \<^verbatim>\<open>NO_ANOMALY\<close>.
\<close>

theorem undated_inscription_not_flagged:
  "inscription.lead_id example_inscription_undated = lead_id example_lead \<and>
   inscription.created_at example_inscription_undated = None \<and>
   prepare_dataset example_ts example_ud [example_campaign] [example_lead]
       [example_inscription_undated] =
     Inr [example_row_undated] \<and>
   inscription_created_at example_row_undated = None \<and>
   \<not> converted example_row_undated \<and>
   conversion_anomaly_type example_row_undated = NO_ANOMALY"
  by (simp add: example_run_undated)
     (simp add: example_row_undated_def example_row_def example_inscription_undated_def
        example_lead_def)

section \<open>Key uniqueness\<close>

lemma count_list_distinct_le: "distinct xs \<Longrightarrow> count_list xs k \<le> 1"
  by (induction xs) (auto simp: count_list_0_iff)

lemma example_run_malformed:
  "prepare_dataset example_ts example_ud [example_campaign]
       [example_lead\<lparr>cost := Some (ascii ''12,3,4'')\<rparr>] [example_inscription] = Inl ValueError"
  by (simp add: pipe_defs float_defs rec_defs example_defs)


text \<open>
  Claim C3 says that for every input the output has as many records as there are leads.
  This fails: with two campaigns of the same identifier the one example lead gives two
  records, and with a currency text that does not parse the run returns no records.
\<close>

theorem one_record_per_lead_counterexample:
  "prepare_dataset example_ts example_ud [example_campaign, example_campaign_dup] [example_lead]
       [example_inscription] =
     Inr [example_row, example_row\<lparr>leads_campaigns.name := Some (ascii ''Social'')\<rparr>] \<and>
   length [example_row, example_row\<lparr>leads_campaigns.name := Some (ascii ''Social'')\<rparr>] \<noteq>
     length [example_lead] \<and>
   prepare_dataset example_ts example_ud [example_campaign]
       [example_lead\<lparr>cost := Some (ascii ''12,3,4'')\<rparr>] [example_inscription] = Inl ValueError"
  by (simp add: example_run_dup example_run_malformed)

text \<open>
  Claim C3, amended. When no two campaigns share a \<^verbatim>\<open>campaign_id\<close> and no two inscriptions
  share a \<^verbatim>\<open>lead_id\<close>, a run of enrichment that returns has exactly one record per lead,
  whether or not the lead matches a campaign or an inscription.
\<close>

theorem one_record_per_lead:
  assumes "distinct (map campaign.campaign_id campaigns)"
    and "distinct (map inscription.lead_id inscriptions)"
    and "prepare_dataset ts ud campaigns leads inscriptions = Inr out"
  shows "length out = length leads"
proof -
  have "max 1 (count_list (map campaign.campaign_id campaigns) k) = 1" for k
    using count_list_distinct_le [OF assms(1), of k] by simp
  moreover have "max 1 (count_list (map inscription.lead_id inscriptions) k) = 1" for k
    using count_list_distinct_le [OF assms(2), of k] by simp
  ultimately show ?thesis
    using prepare_dataset_rows(1) [OF assms(3)]
    by (simp add: length_joined sum_list_triv)
qed

theorem one_record_per_lead_witness:
  "distinct (map campaign.campaign_id [example_campaign]) \<and>
   distinct (map inscription.lead_id [example_inscription]) \<and>
   prepare_dataset example_ts example_ud [example_campaign] [example_lead] [example_inscription] =
     Inr [example_row] \<and>
   length [example_row] = length [example_lead]"
  using one_record_per_lead [of "[example_campaign]" "[example_inscription]", OF _ _ example_run]
  by (simp add: example_run)




section \<open>Properties of the upload\<close>

text \<open>
  Claim C10. With a complete configuration and \<^verbatim>\<open>drop_existing\<close> true, a call with no
  records deletes every document of the collection and inserts nothing, so the
  collection is left empty. The deletion does not depend on the records: a call with
  records leaves exactly those records in the collection.
\<close>

theorem upload_empty_clears:
  assumes "env ''MONGO_URI'' = Some uri" and "uri \<noteq> []"
    and "env ''MONGO_DB'' = Some db" and "db \<noteq> []"
    and "env ''MONGO_COLLECTION'' = Some cn" and "cn \<noteq> []"
  shows "upload_dataframe_to_mongo env server [] True = Inr (server((db, cn) := []), No_records) \<and>
         (records \<noteq> [] \<longrightarrow>
            upload_dataframe_to_mongo env server records True =
              Inr (server((db, cn) := records), Uploaded (length records) db cn))"
  using assms
  by (simp add: upload_dataframe_to_mongo_def falsy_def delete_many_def insert_many_def)

theorem upload_empty_clears_witness:
  "example_env ''MONGO_URI'' = Some ''mongodb://localhost'' \<and> ''mongodb://localhost'' \<noteq> [] \<and>
   example_env ''MONGO_DB'' = Some ''marketing'' \<and> ''marketing'' \<noteq> [] \<and>
   example_env ''MONGO_COLLECTION'' = Some ''leads'' \<and> ''leads'' \<noteq> [] \<and>
   example_server (''marketing'', ''leads'') = [1, 2, 3] \<and>
   upload_dataframe_to_mongo example_env example_server [] True =
     Inr (example_server((''marketing'', ''leads'') := []), No_records)"
  using upload_empty_clears [of example_env "''mongodb://localhost''" "''marketing''" "''leads''"
      example_server "[]"]
  by (simp add: example_env_def example_server_def)

section \<open>Properties of \<^verbatim>\<open>sanitize_dataframe\<close>\<close>

lemma map2_map_same: "map2 f xs (map g xs) = map (\<lambda>x. f x (g x)) xs"
  by (induction xs) auto

lemma map2_map_map: "map2 f (map a xs) (map b xs) = map (\<lambda>x. f (a x) (b x)) xs"
  by (induction xs) auto

lemma list_all_id_map: "list_all id (map g xs) = (\<forall>x\<in>set xs. g x)"
  by (induction xs) auto

lemma where_none_not_datetime:
  "\<not> is_datetime c \<Longrightarrow> \<not> is_datetime (where_none up c keep)"
  by (cases c) auto

lemma conv_not_datetime: "\<not> is_datetime (where_none up (astype_object c) keep)"
  by (cases c) auto

text \<open>
  Replacing the nulls of a column that is not a datetime column a second time changes
  nothing.
\<close>

lemma where_none_idem:
  assumes "\<not> is_datetime c"
  shows "where_none up (where_none up c (notnull c)) (notnull (where_none up c (notnull c))) =
         where_none up c (notnull c)"
proof (cases c)
  case (ObjectCol xs)
  then show ?thesis
    by (simp add: map2_map_same map2_map_map isnull_def o_def)
next
  case (FloatCol xs)
  show ?thesis
  proof (cases "\<forall>x\<in>set xs. x \<noteq> NaN")
    case True
    then show ?thesis using FloatCol by (simp add: list_all_id_map)
  next
    case False
    then have nn: "\<not> list_all id (map (\<lambda>x. x \<noteq> NaN) xs)" by (simp add: list_all_id_map)
    have same: "map (\<lambda>x. if x \<noteq> NaN then x else NaN) xs = xs"
      by (induction xs) auto
    show ?thesis
    proof (cases up)
      case True
      then show ?thesis using FloatCol nn
        by (simp add: map2_map_same map2_map_map isnull_def o_def)
    next
      case False
      then show ?thesis using FloatCol nn
        by (simp add: map2_map_same same)
    qed
  qed
next
  case (IntCol xs)
  then show ?thesis by (simp add: list_all_id_map)
next
  case (BoolCol xs)
  then show ?thesis by (simp add: list_all_id_map)
qed (use assms in auto)

lemma frame_where_idem:
  assumes "\<forall>(n, c)\<in>set f. \<not> is_datetime c"
  shows "frame_where_notnull up (frame_where_notnull up f) = frame_where_notnull up f"
    and "\<forall>(n, c)\<in>set (frame_where_notnull up f). \<not> is_datetime c"
  using assms
  by (auto simp: frame_where_notnull_def where_none_idem where_none_not_datetime)

lemma select_none:
  "\<forall>(n, c)\<in>set f. \<not> is_datetime c \<Longrightarrow> select_dtypes_datetime f = []"
  by (induction f) (auto simp: select_dtypes_datetime_def)

lemma getitem_present: "col \<in> fst ` set f \<Longrightarrow> \<exists>c. getitem f col = Inr c"
  by (cases "map_of f col") (auto simp: getitem_def map_of_eq_None_iff)

lemma labels_setitem: "col \<in> fst ` set f \<Longrightarrow> map fst (setitem f col c) = map fst f"
  by (auto simp: setitem_def)

lemma set_setitem:
  "col \<in> fst ` set f \<Longrightarrow> (n, x) \<in> set (setitem f col c) \<Longrightarrow>
     (n = col \<and> x = c) \<or> (n \<noteq> col \<and> (n, x) \<in> set f)"
  by (auto simp: setitem_def split: if_splits)

text \<open>
  The loop over labels of the frame at \<open>s\<close> does not raise and touches no other frame of
  the store; a datetime column that is left in the frame at \<open>s\<close> was there before and its
  label is not among those of the loop.
\<close>

lemma sanitize_cols_ok:
  assumes "s < length h" and "set cols \<subseteq> fst ` set (h ! s)"
  shows "\<exists>h'. sanitize_cols up cols h s = Inr h' \<and> length h' = length h \<and>
           (\<forall>i. i \<noteq> s \<longrightarrow> h' ! i = h ! i) \<and>
           (\<forall>n c. (n, c) \<in> set (h' ! s) \<longrightarrow> is_datetime c \<longrightarrow>
                    (n, c) \<in> set (h ! s) \<and> n \<notin> set cols)"
  using assms
proof (induction cols arbitrary: h)
  case Nil
  then show ?case by auto
next
  case (Cons col cols)
  from Cons.prems obtain c where c: "getitem (h ! s) col = Inr c"
    using getitem_present [of col "h ! s"] by auto
  define newc where "newc = where_none up (astype_object c) (notnull c)"
  define h1 where "h1 = h[s := setitem (h ! s) col newc]"
  have col_in: "col \<in> fst ` set (h ! s)" using Cons.prems by simp
  have h1s: "h1 ! s = setitem (h ! s) col newc" using Cons.prems by (simp add: h1_def)
  have "fst ` set (h1 ! s) = fst ` set (h ! s)"
    using labels_setitem [OF col_in, of newc] h1s by (metis set_map)
  then have pre: "s < length h1" "set cols \<subseteq> fst ` set (h1 ! s)"
    using Cons.prems by (auto simp: h1_def)
  from Cons.IH [OF pre] obtain h' where h':
    "sanitize_cols up cols h1 s = Inr h'" "length h' = length h1"
    "\<forall>i. i \<noteq> s \<longrightarrow> h' ! i = h1 ! i"
    "\<forall>n c. (n, c) \<in> set (h' ! s) \<longrightarrow> is_datetime c \<longrightarrow> (n, c) \<in> set (h1 ! s) \<and> n \<notin> set cols"
    by blast
  have run: "sanitize_cols up (col # cols) h s = Inr h'"
    using c h'(1) by (simp add: h1_def newc_def)
  have len: "length h' = length h" using h'(2) by (simp add: h1_def)
  have other: "\<forall>i. i \<noteq> s \<longrightarrow> h' ! i = h ! i" using h'(3) by (simp add: h1_def)
  have nd: "\<not> is_datetime newc" by (simp add: newc_def conv_not_datetime)
  have inv: "(n, x) \<in> set (h ! s) \<and> n \<notin> set (col # cols)"
    if nx: "(n, x) \<in> set (h' ! s)" and isdt: "is_datetime x" for n x
  proof -
    from h'(4) nx isdt have a: "(n, x) \<in> set (h1 ! s)" "n \<notin> set cols" by auto
    from set_setitem [OF col_in] a(1) h1s
    have "(n = col \<and> x = newc) \<or> (n \<noteq> col \<and> (n, x) \<in> set (h ! s))"
      by metis
    with nd isdt a(2) show ?thesis by auto
  qed
  from run len other inv show ?case by blast
qed

text \<open>
  \<^verbatim>\<open>sanitize_dataframe\<close> allocates two frames after those of the store, the copy and the
  result; the copy has no datetime column when the loop is over.
\<close>

lemma sanitize_dataframe_result:
  assumes "df < length h"
  shows "\<exists>h2. sanitize_dataframe up h df =
                Inr (h2 @ [frame_where_notnull up (h2 ! length h)], Suc (length h)) \<and>
           length h2 = Suc (length h) \<and> take (length h) h2 = h \<and>
           (\<forall>(n, c)\<in>set (h2 ! length h). \<not> is_datetime c)"
proof -
  define h1 where "h1 = h @ [h ! df]"
  define cols where "cols = select_dtypes_datetime (h1 ! length h)"
  have s: "length h < length h1" by (simp add: h1_def)
  have sub: "set cols \<subseteq> fst ` set (h1 ! length h)"
    by (auto simp: cols_def select_dtypes_datetime_def)
  from sanitize_cols_ok [OF s sub, of up] obtain h2 where h2:
    "sanitize_cols up cols h1 (length h) = Inr h2" "length h2 = length h1"
    "\<forall>i. i \<noteq> length h \<longrightarrow> h2 ! i = h1 ! i"
    "\<forall>n c. (n, c) \<in> set (h2 ! length h) \<longrightarrow> is_datetime c \<longrightarrow>
            (n, c) \<in> set (h1 ! length h) \<and> n \<notin> set cols"
    by blast
  have nodt: "\<forall>(n, c)\<in>set (h2 ! length h). \<not> is_datetime c"
  proof (clarify)
    fix n c assume a: "(n, c) \<in> set (h2 ! length h)" and d: "is_datetime c"
    with h2(4) have "(n, c) \<in> set (h1 ! length h)" "n \<notin> set cols" by auto
    then show False using d by (force simp: cols_def select_dtypes_datetime_def)
  qed
  have tk: "take (length h) h2 = h"
  proof (rule nth_equalityI)
    show "length (take (length h) h2) = length h" using h2(2) by (simp add: h1_def)
    fix i assume "i < length (take (length h) h2)"
    then have i: "i < length h" by simp
    then show "take (length h) h2 ! i = h ! i"
      using h2(3) by (simp add: h1_def nth_append)
  qed
  have "sanitize_dataframe up h df =
          Inr (h2 @ [frame_where_notnull up (h2 ! length h)], Suc (length h))"
    using h2(1,2) by (simp add: sanitize_dataframe_def Let_def h1_def [symmetric] cols_def [symmetric])
       (simp add: h1_def)
  with h2(2) tk nodt show ?thesis by (auto simp: h1_def)
qed

lemmas sanitize_defs = sanitize_dataframe_def select_dtypes_datetime_def getitem_def setitem_def
  frame_where_notnull_def isnull_def example_frame_def example_frame_sanitized_def ascii_def

text \<open>The run on the example frame.\<close>

lemma example_sanitize:
  "\<exists>h'. sanitize_dataframe up [example_frame] 0 = Inr (h', 2) \<and> length h' = 3 \<and>
        h' ! 0 = example_frame \<and> h' ! 2 = example_frame_sanitized up"
  by (cases up) (simp_all add: sanitize_defs)

text \<open>
  Claim C9. \<^verbatim>\<open>sanitize_dataframe\<close> does not change its argument: it returns a reference
  to a frame that was not in the store before, and after the call the argument and every
  other frame of the old store hold what they held before.
\<close>

theorem sanitize_leaves_argument:
  assumes "df < length h"
  shows "\<exists>h' r. sanitize_dataframe up h df = Inr (h', r) \<and>
           length h \<le> r \<and> r < length h' \<and> r \<noteq> df \<and> take (length h) h' = h \<and> h' ! df = h ! df"
proof -
  from sanitize_dataframe_result [OF assms, of up] obtain h2 where h2:
    "sanitize_dataframe up h df =
       Inr (h2 @ [frame_where_notnull up (h2 ! length h)], Suc (length h))"
    "length h2 = Suc (length h)" "take (length h) h2 = h"
    by blast
  have "(h2 @ [frame_where_notnull up (h2 ! length h)]) ! df = take (length h) h2 ! df"
    using assms h2(2) by (simp add: nth_append)
  then have "(h2 @ [frame_where_notnull up (h2 ! length h)]) ! df = h ! df"
    using h2(3) by simp
  moreover have "take (length h) (h2 @ [frame_where_notnull up (h2 ! length h)]) = h"
    using h2(2,3) by simp
  ultimately show ?thesis using h2(1,2) assms by auto
qed

text \<open>The example frame is still in place after the call, and the result differs from it.\<close>

theorem sanitize_leaves_argument_witness:
  "(0::nat) < length [example_frame] \<and>
   (\<exists>h' r. sanitize_dataframe True [example_frame] 0 = Inr (h', r) \<and>
      length [example_frame] \<le> r \<and> r < length h' \<and> r \<noteq> 0 \<and>
      take (length [example_frame]) h' = [example_frame] \<and> h' ! 0 = [example_frame] ! 0 \<and>
      h' ! r = example_frame_sanitized True \<and> h' ! r \<noteq> example_frame)"
proof -
  have lt: "(0::nat) < length [example_frame]" by simp
  from sanitize_leaves_argument [OF lt, of True] obtain h' r where a:
    "sanitize_dataframe True [example_frame] 0 = Inr (h', r)"
    "length [example_frame] \<le> r" "r < length h'" "r \<noteq> 0"
    "take (length [example_frame]) h' = [example_frame]" "h' ! 0 = [example_frame] ! 0"
    by blast
  from example_sanitize [of True] a(1) have b: "r = 2" "h' ! 2 = example_frame_sanitized True"
    by auto
  have c: "example_frame_sanitized True \<noteq> example_frame"
    by (simp add: example_frame_def example_frame_sanitized_def)
  from lt a b c show ?thesis by auto
qed

text \<open>
  Claim C8. \<^verbatim>\<open>sanitize_dataframe\<close> never raises, and it is idempotent: sanitizing the
  frame it returns gives a frame with the same columns and cells.
\<close>

theorem sanitize_idempotent:
  assumes "df < length h"
  shows "\<exists>h1 r1 h2 r2. sanitize_dataframe up h df = Inr (h1, r1) \<and>
           sanitize_dataframe up h1 r1 = Inr (h2, r2) \<and> h2 ! r2 = h1 ! r1"
proof -
  from sanitize_dataframe_result [OF assms, of up] obtain g where g:
    "sanitize_dataframe up h df =
       Inr (g @ [frame_where_notnull up (g ! length h)], Suc (length h))"
    "length g = Suc (length h)"
    "\<forall>(n, c)\<in>set (g ! length h). \<not> is_datetime c"
    by blast
  define R where "R = frame_where_notnull up (g ! length h)"
  define h1 where "h1 = g @ [R]"
  have R: "frame_where_notnull up R = R" "\<forall>(n, c)\<in>set R. \<not> is_datetime c"
    using frame_where_idem [OF g(3), of up] by (simp_all add: R_def)
  have at: "h1 ! Suc (length h) = R" using g(2) by (simp add: h1_def nth_append)
  have len: "length h1 = Suc (Suc (length h))" using g(2) by (simp add: h1_def)
  have "sanitize_dataframe up h1 (Suc (length h)) = Inr ((h1 @ [R]) @ [R], Suc (length h1))"
    using R at len by (simp add: sanitize_dataframe_def Let_def select_none nth_append)
  moreover have "((h1 @ [R]) @ [R]) ! Suc (length h1) = R"
    by (simp add: nth_append)
  ultimately show ?thesis
    using g(1) at unfolding R_def [symmetric] h1_def [symmetric] by auto
qed

text \<open>The example frame, in a pandas release that keeps \<^verbatim>\<open>NaN\<close> in a float column.\<close>

theorem sanitize_idempotent_witness:
  "(0::nat) < length [example_frame] \<and>
   (\<exists>h1 r1 h2 r2. sanitize_dataframe False [example_frame] 0 = Inr (h1, r1) \<and>
      sanitize_dataframe False h1 r1 = Inr (h2, r2) \<and> h2 ! r2 = h1 ! r1 \<and>
      h1 ! r1 = example_frame_sanitized False)"
proof -
  have lt: "(0::nat) < length [example_frame]" by simp
  from sanitize_idempotent [OF lt, of False] obtain h1 r1 h2 r2 where a:
    "sanitize_dataframe False [example_frame] 0 = Inr (h1, r1)"
    "sanitize_dataframe False h1 r1 = Inr (h2, r2)" "h2 ! r2 = h1 ! r1"
    by blast
  from example_sanitize [of False] a(1) have "h1 ! r1 = example_frame_sanitized False"
    by auto
  with lt a show ?thesis by blast
qed

end
